theory Spec2Isabelle
  imports Complex_Main
begin

section \<open>Data model of \<open>Whiteboard.tsx\<close>\<close>

text \<open>
  The component \<open>Whiteboard\<close> keeps its state in React state cells and refs and mutates
  a 2D canvas context. The model threads one record through every handler. JavaScript
  numbers are modelled as \<open>real\<close> (the only arithmetic in the handlers is the subtraction
  of the canvas origin and the doubling of the eraser width; rounding and the
  non-finite values are not modelled). Toasts and console output are left out: no
  handler reads them back.

  A handler is a closure of the render that created it: it reads the state cells as
  that render saw them, and its \<open>set...\<close> calls change the state React holds, which the
  handlers see only after the next render. Refs and the canvas are read and written in
  place. An \<open>await\<close> suspends its handler; what follows the \<open>await\<close> runs as a step of
  its own, after whatever else has happened in between.
\<close>

type_synonym point = "real \<times> real"

text \<open>\<open>DrawingData.type\<close>: \<open>'draw' | 'erase'\<close>.\<close>

datatype stroke_type = draw_t | erase_t

text \<open>\<open>interface DrawingData\<close>. The fields \<open>id\<close>, \<open>type\<close>, \<open>color\<close> and \<open>size\<close> carry the
  suffix \<open>_d\<close>.\<close>

record DrawingData =
  id_d :: string
  type_d :: stroke_type
  points :: "point list"
  color_d :: string
  size_d :: real
  timestamp :: nat

text \<open>\<open>interface User\<close>, with its optional \<open>metadata\<close>.\<close>

record metadata_t =
  displayName :: "string option"
  cursor :: "point option"

record User =
  userId :: string
  metadata :: "metadata_t option"

text \<open>The argument of the \<open>channel.onMessage\<close> handler.\<close>

record message =
  m_type :: string
  m_userId :: string
  m_data :: DrawingData

text \<open>
  One call of \<open>channel.publish(topic, payload, {userId})\<close>. The payload of a \<open>'clear'\<close>
  publication is the empty object, \<open>None\<close> here. The channel handle is modelled by the
  list of the publish calls made on it, oldest first.
\<close>

record publication =
  topic :: string
  payload :: "DrawingData option"
  meta_userId :: string

type_synonym channel = "publication list"

definition publish :: "string \<Rightarrow> DrawingData option \<Rightarrow> string \<Rightarrow> channel \<Rightarrow> channel" where
  "publish t p u ch = ch @ [\<lparr>topic = t, payload = p, meta_userId = u\<rparr>]"

text \<open>A rejected \<open>publish\<close> promise, awaited in \<open>stopDrawing\<close> and \<open>handleClear\<close> with no
  \<open>catch\<close>, leaves the handler as a rejection of its own promise.\<close>

datatype error = PublishError

subsection \<open>The 2D canvas context\<close>

text \<open>\<open>globalCompositeOperation\<close>, for the two values the component assigns.\<close>

datatype composite = source_over | destination_out

text \<open>
  The bitmap is represented by the painting calls that contribute to it, oldest first,
  over an initially transparent surface: \<open>Fill c\<close> is a fill of the whole bitmap with
  the opaque colour \<open>c\<close>, and \<open>Stroke op style width path\<close> is one \<open>stroke()\<close> call
  with the compositing operation, stroke style, line width and path it was made with.
\<close>

datatype paint =
    Fill string
  | Stroke composite string real "point list list"

text \<open>
  The attributes of the context the component touches, its current path and its bitmap.
  \<open>otherColor\<close> is the browser's CSS colour parser on the strings that are not in hex
  notation (colour keywords, \<open>rgb(...)\<close> and so on): which of them it accepts is not
  decided here.
\<close>

record ctx2d =
  globalCompositeOperation :: composite
  strokeStyle :: string
  lineWidth :: real
  fillStyle :: string
  lineCap :: string
  lineJoin :: string
  path :: "point list list"
  bitmap :: "paint list"
  otherColor :: "string \<Rightarrow> bool"

text \<open>Hex notation: \<open>#\<close> followed by 3, 4, 6 or 8 hexadecimal digits.\<close>

definition hexDigit :: "char \<Rightarrow> bool" where
  "hexDigit ch = (ch \<in> set ''0123456789abcdefABCDEF'')"

definition hexColor :: "string \<Rightarrow> bool" where
  "hexColor v =
     (case v of
        [] \<Rightarrow> False
      | h # ds \<Rightarrow> h = CHR ''#'' \<and> length ds \<in> {3, 4, 6, 8} \<and> list_all hexDigit ds)"

definition validColor :: "ctx2d \<Rightarrow> string \<Rightarrow> bool" where
  "validColor c v = (hexColor v \<or> otherColor c v)"

text \<open>
  The attribute setters. Assigning a string that does not parse as a colour to
  \<open>strokeStyle\<close> or \<open>fillStyle\<close> leaves the attribute as it was, and so does assigning
  zero or a negative number to \<open>lineWidth\<close> (and a non-finite one, which the reals of
  this model do not have).
\<close>

definition set_strokeStyle :: "string \<Rightarrow> ctx2d \<Rightarrow> ctx2d" where
  "set_strokeStyle v c = (if validColor c v then c\<lparr>strokeStyle := v\<rparr> else c)"

definition set_fillStyle :: "string \<Rightarrow> ctx2d \<Rightarrow> ctx2d" where
  "set_fillStyle v c = (if validColor c v then c\<lparr>fillStyle := v\<rparr> else c)"

definition set_lineWidth :: "real \<Rightarrow> ctx2d \<Rightarrow> ctx2d" where
  "set_lineWidth w c = (if 0 < w then c\<lparr>lineWidth := w\<rparr> else c)"

definition beginPath :: "ctx2d \<Rightarrow> ctx2d" where
  "beginPath c = c\<lparr>path := []\<rparr>"

definition moveTo :: "point \<Rightarrow> ctx2d \<Rightarrow> ctx2d" where
  "moveTo p c = c\<lparr>path := path c @ [[p]]\<rparr>"

text \<open>\<open>lineTo\<close> extends the last subpath; on an empty path it starts one.\<close>

definition lineTo :: "point \<Rightarrow> ctx2d \<Rightarrow> ctx2d" where
  "lineTo p c =
     (if path c = [] then c\<lparr>path := [[p]]\<rparr>
      else c\<lparr>path := butlast (path c) @ [last (path c) @ [p]]\<rparr>)"

definition stroke :: "ctx2d \<Rightarrow> ctx2d" where
  "stroke c =
     c\<lparr>bitmap := bitmap c @
        [Stroke (globalCompositeOperation c) (strokeStyle c) (lineWidth c) (path c)]\<rparr>"

text \<open>
  \<open>fillRect(0, 0, canvas.width, canvas.height)\<close> with an opaque fill style. Like every
  painting call of the canvas it is composited with the current
  \<open>globalCompositeOperation\<close>: under \<open>source-over\<close> the fill covers everything painted
  before, under \<open>destination-out\<close> it removes everything painted before and leaves the
  bitmap transparent.
\<close>

definition fillRect :: "ctx2d \<Rightarrow> ctx2d" where
  "fillRect c =
     (case globalCompositeOperation c of
        source_over \<Rightarrow> c\<lparr>bitmap := [Fill (fillStyle c)]\<rparr>
      | destination_out \<Rightarrow> c\<lparr>bitmap := []\<rparr>)"

text \<open>The canvas element: its bounding rectangle's origin and its 2D context, which
  \<open>getContext('2d')\<close> may fail to give.\<close>

record canvas =
  rect_left :: real
  rect_top :: real
  context2d :: "ctx2d option"

subsection \<open>Component state\<close>

datatype tool_t = pen | eraser

text \<open>The state React holds for the cells the handlers read. The cell \<open>size\<close> is
  \<open>st_size\<close> here.\<close>

record react_state =
  st_isDrawing :: bool
  st_tool :: tool_t
  st_color :: string
  st_size :: real
  st_currentStroke :: "point list"
  st_isConnected :: bool

text \<open>
  The component. \<open>isDrawing\<close>, \<open>tool\<close>, \<open>color\<close>, \<open>size_s\<close> (the cell \<open>size\<close>),
  \<open>currentStroke\<close> and \<open>isConnected\<close> are the cells as the last render saw them, which is
  what the handlers read; \<open>held\<close> is what React holds for them. \<open>onlineUsers\<close> is read by
  no handler, only by the render: the record keeps the value React holds.
  \<open>awaited\<close> counts the \<open>stopDrawing\<close> calls suspended at their \<open>await\<close>. \<open>user_id\<close> is
  the property \<open>user.id\<close>; the last three fields are the refs.
\<close>

record whiteboard =
  user_id :: string
  isDrawing :: bool
  tool :: tool_t
  color :: string
  size_s :: real
  currentStroke :: "point list"
  onlineUsers :: "User list"
  isConnected :: bool
  held :: react_state
  awaited :: nat
  drawingHistory :: "DrawingData list"
  channelRef :: "channel option"
  canvasRef :: "canvas option"

text \<open>The state setters. \<open>setCurrentStroke\<close> takes the updater function; the two calls
  that pass a list pass the constant function.\<close>

definition setIsDrawing :: "bool \<Rightarrow> whiteboard \<Rightarrow> whiteboard" where
  "setIsDrawing b s = s\<lparr>held := (held s)\<lparr>st_isDrawing := b\<rparr>\<rparr>"

definition setTool :: "tool_t \<Rightarrow> whiteboard \<Rightarrow> whiteboard" where
  "setTool t s = s\<lparr>held := (held s)\<lparr>st_tool := t\<rparr>\<rparr>"

definition setColor :: "string \<Rightarrow> whiteboard \<Rightarrow> whiteboard" where
  "setColor k s = s\<lparr>held := (held s)\<lparr>st_color := k\<rparr>\<rparr>"

definition setSize :: "real \<Rightarrow> whiteboard \<Rightarrow> whiteboard" where
  "setSize n s = s\<lparr>held := (held s)\<lparr>st_size := n\<rparr>\<rparr>"

definition setCurrentStroke :: "(point list \<Rightarrow> point list) \<Rightarrow> whiteboard \<Rightarrow> whiteboard" where
  "setCurrentStroke f s = s\<lparr>held := (held s)\<lparr>st_currentStroke := f (st_currentStroke (held s))\<rparr>\<rparr>"

definition setIsConnected :: "bool \<Rightarrow> whiteboard \<Rightarrow> whiteboard" where
  "setIsConnected b s = s\<lparr>held := (held s)\<lparr>st_isConnected := b\<rparr>\<rparr>"

text \<open>A render: the handlers it creates see the state React holds at that moment.\<close>

definition render :: "whiteboard \<Rightarrow> whiteboard" where
  "render s =
     s\<lparr>isDrawing := st_isDrawing (held s),
       tool := st_tool (held s),
       color := st_color (held s),
       size_s := st_size (held s),
       currentStroke := st_currentStroke (held s),
       isConnected := st_isConnected (held s)\<rparr>"

text \<open>\<open>canvasRef.current?.getContext('2d')\<close>, and the write-back of a context the handler
  has mutated.\<close>

definition getContext :: "whiteboard \<Rightarrow> ctx2d option" where
  "getContext s = (case canvasRef s of None \<Rightarrow> None | Some cv \<Rightarrow> context2d cv)"

definition putContext :: "ctx2d \<Rightarrow> whiteboard \<Rightarrow> whiteboard" where
  "putContext c s = s\<lparr>canvasRef := map_option (\<lambda>cv. cv\<lparr>context2d := Some c\<rparr>) (canvasRef s)\<rparr>"

text \<open>A mouse event, or a touch event read at \<open>touches[0]\<close>.\<close>

record pointer_event =
  clientX :: real
  clientY :: real

section \<open>The handlers\<close>

definition getCanvasCoordinates :: "pointer_event \<Rightarrow> whiteboard \<Rightarrow> point" where
  "getCanvasCoordinates e s =
     (case canvasRef s of
        None \<Rightarrow> (0, 0)
      | Some cv \<Rightarrow> (clientX e - rect_left cv, clientY e - rect_top cv))"

definition startDrawing :: "pointer_event \<Rightarrow> whiteboard \<Rightarrow> whiteboard" where
  "startDrawing e s =
     (if \<not> isConnected s then s
      else
        let s1 = setIsDrawing True s;
            point = getCanvasCoordinates e s1;
            s2 = setCurrentStroke (\<lambda>_. [point]) s1
        in case getContext s2 of
             None \<Rightarrow> s2
           | Some ctx \<Rightarrow> putContext (moveTo point (beginPath ctx)) s2)"

definition draw :: "pointer_event \<Rightarrow> whiteboard \<Rightarrow> whiteboard" where
  "draw e s =
     (if \<not> isDrawing s \<or> \<not> isConnected s then s
      else
        let point = getCanvasCoordinates e s;
            s1 = setCurrentStroke (\<lambda>prev. prev @ [point]) s
        in case getContext s1 of
             None \<Rightarrow> s1
           | Some ctx \<Rightarrow>
               let ctx1 =
                     (if tool s = pen
                      then set_lineWidth (size_s s)
                             (set_strokeStyle (color s)
                                (ctx\<lparr>globalCompositeOperation := source_over\<rparr>))
                      else set_lineWidth (size_s s * 2)
                             (ctx\<lparr>globalCompositeOperation := destination_out\<rparr>))
               in putContext (stroke (lineTo point ctx1)) s1)"

text \<open>\<open>Date.now().toString()\<close>: the decimal digits of the clock reading.\<close>

fun toString :: "nat \<Rightarrow> string" where
  "toString n =
     (if n < 10 then [char_of (48 + n)]
      else toString (n div 10) @ [char_of (48 + n mod 10)])"

declare toString.simps [simp del]

text \<open>
  \<open>stopDrawing\<close> up to its \<open>await\<close>. It reads the clock twice (\<open>now_id\<close>, \<open>now_ts\<close>). The
  result says whether the call is now suspended at the \<open>await\<close>; without a channel
  handle there is nothing to await and the call runs to its end.
\<close>

definition stopDrawing_begin :: "nat \<Rightarrow> nat \<Rightarrow> whiteboard \<Rightarrow> whiteboard \<times> bool" where
  "stopDrawing_begin now_id now_ts s =
     (if \<not> isDrawing s \<or> \<not> isConnected s \<or> length (currentStroke s) = 0 then (s, False)
      else
        let s1 = setIsDrawing False s;
            drawingData =
              \<lparr>id_d = toString now_id,
               type_d = (if tool s = pen then draw_t else erase_t),
               points = currentStroke s,
               color_d = color s,
               size_d = size_s s,
               timestamp = now_ts\<rparr>;
            s2 = s1\<lparr>drawingHistory := drawingHistory s1 @ [drawingData]\<rparr>
        in case channelRef s2 of
             None \<Rightarrow> (setCurrentStroke (\<lambda>_. []) s2, False)
           | Some ch \<Rightarrow>
               (s2\<lparr>channelRef := Some (publish ''draw'' (Some drawingData) (user_id s) ch),
                   awaited := awaited s2 + 1\<rparr>,
                True))"

text \<open>
  \<open>stopDrawing\<close> from its \<open>await\<close> on, when the publish call has settled with outcome
  \<open>ok\<close>: after a rejection the statement that follows the \<open>await\<close> is not run, and the
  call ends with the rejection.
\<close>

definition stopDrawing_resume :: "bool \<Rightarrow> whiteboard \<Rightarrow> whiteboard \<times> error option" where
  "stopDrawing_resume ok s =
     (let s1 = s\<lparr>awaited := awaited s - 1\<rparr>
      in if ok then (setCurrentStroke (\<lambda>_. []) s1, None) else (s1, Some PublishError))"

text \<open>One call of \<open>stopDrawing\<close> from its first line to its end, with nothing happening
  between the publish call and its settling with outcome \<open>ok\<close>.\<close>

definition stopDrawing :: "nat \<Rightarrow> nat \<Rightarrow> bool \<Rightarrow> whiteboard \<Rightarrow> whiteboard \<times> error option" where
  "stopDrawing now_id now_ts ok s =
     (case stopDrawing_begin now_id now_ts s of
        (s1, True) \<Rightarrow> stopDrawing_resume ok s1
      | (s1, False) \<Rightarrow> (s1, None))"

text \<open>In \<open>drawRemoteStroke\<close> the test \<open>data.points.length === 0\<close> is the \<open>[]\<close> case, and
  \<open>data.points[0]\<close> the head in the other.\<close>

definition drawRemoteStroke :: "DrawingData \<Rightarrow> whiteboard \<Rightarrow> whiteboard" where
  "drawRemoteStroke data s =
     (case getContext s of
        None \<Rightarrow> s
      | Some ctx \<Rightarrow>
          (case points data of
             [] \<Rightarrow> s
           | p0 # _ \<Rightarrow>
               let ctx1 = moveTo p0 (beginPath ctx);
                   ctx2 =
                     (if type_d data = draw_t
                      then set_lineWidth (size_d data)
                             (set_strokeStyle (color_d data)
                                (ctx1\<lparr>globalCompositeOperation := source_over\<rparr>))
                      else set_lineWidth (size_d data * 2)
                             (ctx1\<lparr>globalCompositeOperation := destination_out\<rparr>));
                   ctx3 = foldl (\<lambda>c point. lineTo point c) ctx2 (points data)
               in putContext (stroke ctx3) s))"

definition clearCanvas :: "whiteboard \<Rightarrow> whiteboard" where
  "clearCanvas s =
     (case getContext s of
        None \<Rightarrow> s
      | Some ctx \<Rightarrow>
          (putContext (fillRect (set_fillStyle ''#ffffff'' ctx)) s)\<lparr>drawingHistory := []\<rparr>)"

definition handleClear :: "bool \<Rightarrow> whiteboard \<Rightarrow> whiteboard \<times> error option" where
  "handleClear ok s =
     (if \<not> isConnected s then (s, None)
      else
        let s1 = clearCanvas s
        in case channelRef s1 of
             None \<Rightarrow> (s1, None)
           | Some ch \<Rightarrow>
               (s1\<lparr>channelRef := Some (publish ''clear'' None (user_id s) ch)\<rparr>,
                if ok then None else Some PublishError))"

text \<open>\<open>redrawCanvas\<close> calls \<open>clearCanvas\<close> and then iterates over
  \<open>drawingHistory.current\<close> as \<open>clearCanvas\<close> has left it.\<close>

definition redrawCanvas :: "whiteboard \<Rightarrow> whiteboard" where
  "redrawCanvas s =
     (case getContext s of
        None \<Rightarrow> s
      | Some ctx \<Rightarrow>
          let s1 = clearCanvas s
          in foldl (\<lambda>s' data. drawRemoteStroke data s') s1 (drawingHistory s1))"

definition handleUndo :: "whiteboard \<Rightarrow> whiteboard" where
  "handleUndo s =
     (if length (drawingHistory s) = 0 then s
      else redrawCanvas (s\<lparr>drawingHistory := butlast (drawingHistory s)\<rparr>))"

definition onMessage :: "message \<Rightarrow> whiteboard \<Rightarrow> whiteboard" where
  "onMessage m s =
     (if m_type m = ''draw'' \<and> m_userId m \<noteq> user_id s then drawRemoteStroke (m_data m) s
      else if m_type m = ''clear'' then clearCanvas s
      else s)"

definition onPresence :: "User list \<Rightarrow> whiteboard \<Rightarrow> whiteboard" where
  "onPresence users s = s\<lparr>onlineUsers := users\<rparr>"

text \<open>The header's \<open>{onlineUsers.length} online\<close>.\<close>

definition onlineCount :: "whiteboard \<Rightarrow> nat" where
  "onlineCount s = length (onlineUsers s)"

section \<open>Mounting, and the component as an event loop\<close>

text \<open>The state of a 2D context after \<open>canvas.width\<close> has been assigned: every attribute
  at its default, no path, a transparent bitmap. The parser is the browser's.\<close>

definition defaultContext :: "(string \<Rightarrow> bool) \<Rightarrow> ctx2d" where
  "defaultContext other =
     \<lparr>globalCompositeOperation = source_over, strokeStyle = ''#000000'', lineWidth = 1,
      fillStyle = ''#000000'', lineCap = ''butt'', lineJoin = ''miter'', path = [],
      bitmap = [], otherColor = other\<rparr>"

text \<open>The effect that sizes the canvas and paints the white background.\<close>

definition mountCanvas :: "canvas \<Rightarrow> canvas" where
  "mountCanvas cv =
     (case context2d cv of
        None \<Rightarrow> cv
      | Some c \<Rightarrow>
          cv\<lparr>context2d :=
               Some (fillRect (set_fillStyle ''#ffffff''
                       ((defaultContext (otherColor c))\<lparr>lineCap := ''round'',
                                                        lineJoin := ''round''\<rparr>)))\<rparr>)"

text \<open>The component after its first render and both effects: the \<open>useState\<close> defaults,
  a channel handle with no publish call yet, the subscription still pending.\<close>

definition mounted :: "string \<Rightarrow> canvas option \<Rightarrow> whiteboard" where
  "mounted uid cv =
     \<lparr>user_id = uid, isDrawing = False, tool = pen, color = ''#000000'', size_s = 3,
      currentStroke = [], onlineUsers = [], isConnected = False,
      held = \<lparr>st_isDrawing = False, st_tool = pen, st_color = ''#000000'', st_size = 3,
              st_currentStroke = [], st_isConnected = False\<rparr>,
      awaited = 0, drawingHistory = [], channelRef = Some [],
      canvasRef = map_option mountCanvas cv\<rparr>"

text \<open>
  Everything that can happen to a mounted component, one constructor per step: the
  subscription settling, a render, the pointer handlers of the canvas, the publish call
  of a suspended \<open>stopDrawing\<close> settling, the two channel handlers, the toolbar buttons
  and the three toolbar setters. \<open>PointerUp\<close> carries the two clock readings,
  \<open>ClickClear\<close> the publish outcome of \<open>handleClear\<close>, whose continuation only shows a
  toast. A rejection is not caught by anybody: the loop goes on with the state the
  handler left.
\<close>

datatype event =
    SubscribeResolved
  | SubscribeRejected
  | Render
  | PointerDown pointer_event
  | PointerMove pointer_event
  | PointerUp nat nat
  | DrawPublishSettled bool
  | Message message
  | Presence "User list"
  | ClickClear bool
  | ClickUndo
  | SetTool tool_t
  | SetColor string
  | SetSize real

fun handle :: "event \<Rightarrow> whiteboard \<Rightarrow> whiteboard" where
  "handle SubscribeResolved s = setIsConnected True s"
| "handle SubscribeRejected s = s"
| "handle Render s = render s"
| "handle (PointerDown e) s = startDrawing e s"
| "handle (PointerMove e) s = draw e s"
| "handle (PointerUp now_id now_ts) s = fst (stopDrawing_begin now_id now_ts s)"
| "handle (DrawPublishSettled ok) s =
     (if awaited s = 0 then s else fst (stopDrawing_resume ok s))"
| "handle (Message m) s = onMessage m s"
| "handle (Presence users) s = onPresence users s"
| "handle (ClickClear ok) s = fst (handleClear ok s)"
| "handle ClickUndo s = handleUndo s"
| "handle (SetTool t) s = setTool t s"
| "handle (SetColor k) s = setColor k s"
| "handle (SetSize n) s = setSize n s"

definition run :: "event list \<Rightarrow> whiteboard \<Rightarrow> whiteboard" where
  "run evs s = foldl (\<lambda>s' e. handle e s') s evs"

text \<open>The events of one gesture in which React renders after the press and after every
  move: press at \<open>e0\<close>, moves \<open>es\<close>, release.\<close>

definition renderedGesture :: "pointer_event \<Rightarrow> pointer_event list \<Rightarrow> nat \<Rightarrow> nat \<Rightarrow> event list" where
  "renderedGesture e0 es now_id now_ts =
     PointerDown e0 # Render # concat (map (\<lambda>e. [PointerMove e, Render]) es) @
       [PointerUp now_id now_ts]"

section \<open>Reference notions the properties are stated with\<close>

text \<open>The surface a replica shows, if it has one.\<close>

definition surface :: "whiteboard \<Rightarrow> paint list option" where
  "surface s = map_option bitmap (getContext s)"

text \<open>The blank surface: the solid white background fill and nothing else.\<close>

definition blank :: "paint list" where
  "blank = [Fill ''#ffffff'']"

text \<open>
  What replaying a stroke is to paint on a context: one stroked path that starts at the
  first point and then visits every point of the stroke in order; for \<open>draw\<close> an overlay
  in the stroke's colour and width, for \<open>erase\<close> a cut of twice the stroke's width (the
  stroke style a cut is made with is whatever the context holds).
\<close>

definition replayed :: "DrawingData \<Rightarrow> ctx2d \<Rightarrow> paint" where
  "replayed d c =
     (case type_d d of
        draw_t \<Rightarrow> Stroke source_over (color_d d) (size_d d) [hd (points d) # points d]
      | erase_t \<Rightarrow> Stroke destination_out (strokeStyle c) (size_d d * 2) [hd (points d) # points d])"

text \<open>The publish calls a replica has made.\<close>

definition published :: "whiteboard \<Rightarrow> publication list" where
  "published s = (case channelRef s of None \<Rightarrow> [] | Some ch \<Rightarrow> ch)"

text \<open>The presence snapshot delivered last in a run of events, \<open>d\<close> when there was none.\<close>

fun latestSnapshot :: "User list \<Rightarrow> event list \<Rightarrow> User list" where
  "latestSnapshot d [] = d"
| "latestSnapshot d (Presence users # evs) = latestSnapshot users evs"
| "latestSnapshot d (_ # evs) = latestSnapshot d evs"

section \<open>Example replicas\<close>

text \<open>A canvas element at the page origin that gives a 2D context, in a browser that
  knows a few colour keywords besides hex notation.\<close>

definition colorKeywords :: "string \<Rightarrow> bool" where
  "colorKeywords v = (v \<in> set [''black'', ''white'', ''red''])"

definition board :: canvas where
  "board = \<lparr>rect_left = 0, rect_top = 0, context2d = Some (defaultContext colorKeywords)\<rparr>"

text \<open>Participant \<open>B\<close>, mounted; and connected.\<close>

definition replicaB0 :: whiteboard where
  "replicaB0 = mounted ''B'' (Some board)"

definition replicaB :: whiteboard where
  "replicaB = run [SubscribeResolved, Render] replicaB0"

text \<open>The stroke of the scenario: participant \<open>A\<close> draws from \<open>(0,0)\<close> to \<open>(10,10)\<close> in red,
  width 3; and the message that carries it.\<close>

definition strokeA :: DrawingData where
  "strokeA =
     \<lparr>id_d = toString 1700, type_d = draw_t, points = [(0, 0), (10, 10)],
      color_d = ''#ff0000'', size_d = 3, timestamp = 1700\<rparr>"

definition messageA :: message where
  "messageA = \<lparr>m_type = ''draw'', m_userId = ''A'', m_data = strokeA\<rparr>"

text \<open>
  One gesture with the current tool, React rendering after every step: press at
  \<open>(0,0)\<close>, move to \<open>(10,10)\<close>, release at clock reading \<open>t\<close>, the publication
  succeeding before anything else happens.
\<close>

definition dragGesture :: "nat \<Rightarrow> event list" where
  "dragGesture t =
     [PointerDown \<lparr>clientX = 0, clientY = 0\<rparr>, Render,
      PointerMove \<lparr>clientX = 10, clientY = 10\<rparr>, Render,
      PointerUp t t, DrawPublishSettled True, Render]"

text \<open>Participant \<open>B\<close> in the middle of a gesture, after one, and after two.\<close>

definition midGesture :: whiteboard where
  "midGesture =
     run [PointerDown \<lparr>clientX = 0, clientY = 0\<rparr>, Render,
          PointerMove \<lparr>clientX = 10, clientY = 10\<rparr>, Render]
       replicaB"

definition oneStroke :: whiteboard where
  "oneStroke = run (dragGesture 1700) replicaB"

definition twoStrokes :: whiteboard where
  "twoStrokes = run (dragGesture 1800) oneStroke"

text \<open>Participant \<open>B\<close> after a gesture with the eraser.\<close>

definition erased :: whiteboard where
  "erased = run (SetTool eraser # Render # dragGesture 1700) replicaB"

text \<open>Participant \<open>B\<close> releases the pointer right after a move, before React has rendered
  the move.\<close>

definition hastyRelease :: whiteboard where
  "hastyRelease =
     run [PointerDown \<lparr>clientX = 0, clientY = 0\<rparr>, Render,
          PointerMove \<lparr>clientX = 10, clientY = 10\<rparr>,
          PointerUp 1700 1700]
       replicaB"

text \<open>
  Participant \<open>B\<close> starts a second gesture while the publication of the first stroke is
  still under way: press at \<open>(20,20)\<close>, move to \<open>(30,30)\<close>; the publication settles; move
  to \<open>(40,40)\<close>, release. React renders after every step.
\<close>

definition overlappingGestures :: whiteboard where
  "overlappingGestures =
     run [PointerDown \<lparr>clientX = 0, clientY = 0\<rparr>, Render,
          PointerMove \<lparr>clientX = 10, clientY = 10\<rparr>, Render,
          PointerUp 1700 1700, Render,
          PointerDown \<lparr>clientX = 20, clientY = 20\<rparr>, Render,
          PointerMove \<lparr>clientX = 30, clientY = 30\<rparr>, Render,
          DrawPublishSettled True, Render,
          PointerMove \<lparr>clientX = 40, clientY = 40\<rparr>, Render,
          PointerUp 1800 1800, Render]
       replicaB"

text \<open>A draw message of participant \<open>A\<close> whose colour is no colour and whose size is
  negative.\<close>

definition messageBogus :: message where
  "messageBogus =
     \<lparr>m_type = ''draw'', m_userId = ''A'',
      m_data = strokeA\<lparr>color_d := ''bogus'', size_d := - 3\<rparr>\<rparr>"

section \<open>Basic facts about the handlers\<close>

lemmas setter_defs =
  setIsDrawing_def setTool_def setColor_def setSize_def setCurrentStroke_def setIsConnected_def

text \<open>Writing a context back touches nothing but the canvas.\<close>

lemma putContext_keeps:
  "drawingHistory (putContext c s) = drawingHistory s"
  "channelRef (putContext c s) = channelRef s"
  "onlineUsers (putContext c s) = onlineUsers s"
  "isConnected (putContext c s) = isConnected s"
  "isDrawing (putContext c s) = isDrawing s"
  "currentStroke (putContext c s) = currentStroke s"
  "tool (putContext c s) = tool s"
  "color (putContext c s) = color s"
  "size_s (putContext c s) = size_s s"
  "user_id (putContext c s) = user_id s"
  "held (putContext c s) = held s"
  "awaited (putContext c s) = awaited s"
  by (simp_all add: putContext_def)

lemma getContext_putContext:
  "getContext s = Some c \<Longrightarrow> getContext (putContext c' s) = Some c'"
  by (cases "canvasRef s") (simp_all add: getContext_def putContext_def)

lemma getCanvasCoordinates_putContext:
  "getCanvasCoordinates e (putContext c s) = getCanvasCoordinates e s"
  by (cases "canvasRef s") (simp_all add: getCanvasCoordinates_def putContext_def)

lemma getCanvasCoordinates_update:
  "getCanvasCoordinates e (s\<lparr>held := h\<rparr>) = getCanvasCoordinates e s"
  "getCanvasCoordinates e (s\<lparr>isDrawing := b\<rparr>) = getCanvasCoordinates e s"
  "getCanvasCoordinates e (s\<lparr>tool := t\<rparr>) = getCanvasCoordinates e s"
  "getCanvasCoordinates e (s\<lparr>color := k\<rparr>) = getCanvasCoordinates e s"
  "getCanvasCoordinates e (s\<lparr>size_s := n\<rparr>) = getCanvasCoordinates e s"
  "getCanvasCoordinates e (s\<lparr>currentStroke := cs\<rparr>) = getCanvasCoordinates e s"
  "getCanvasCoordinates e (s\<lparr>isConnected := b\<rparr>) = getCanvasCoordinates e s"
  by (simp_all add: getCanvasCoordinates_def)

lemma surface_putContext:
  "getContext s = Some c \<Longrightarrow> surface (putContext c' s) = Some (bitmap c')"
  by (simp add: surface_def getContext_putContext)

text \<open>The paths \<open>lineTo\<close> builds, and a colour every browser parses.\<close>

lemma lineTo_fields:
  "bitmap (lineTo p c) = bitmap c"
  "globalCompositeOperation (lineTo p c) = globalCompositeOperation c"
  "strokeStyle (lineTo p c) = strokeStyle c"
  "lineWidth (lineTo p c) = lineWidth c"
  "path (lineTo p c) = (if path c = [] then [[p]] else butlast (path c) @ [last (path c) @ [p]])"
  by (simp_all add: lineTo_def)

lemma foldl_lineTo:
  "path c \<noteq> [] \<Longrightarrow>
     foldl (\<lambda>c' p. lineTo p c') c ps = c\<lparr>path := butlast (path c) @ [last (path c) @ ps]\<rparr>"
proof (induction ps arbitrary: c)
  case Nil
  then show ?case by simp
next
  case (Cons p ps)
  have "path (lineTo p c) \<noteq> []" using Cons.prems by (simp add: lineTo_def)
  from Cons.IH [OF this] show ?case using Cons.prems by (simp add: lineTo_def)
qed

lemma validColor_white: "validColor c ''#ffffff''"
  by (simp add: validColor_def hexColor_def hexDigit_def)

text \<open>Replaying a stroke, clearing and redrawing leave the channel and the presence list
  alone; replaying leaves the history alone as well.\<close>

lemma drawRemoteStroke_keeps:
  "drawingHistory (drawRemoteStroke d s) = drawingHistory s"
  "channelRef (drawRemoteStroke d s) = channelRef s"
  "onlineUsers (drawRemoteStroke d s) = onlineUsers s"
  by (simp_all add: drawRemoteStroke_def putContext_keeps Let_def split: option.split list.split)

lemma clearCanvas_keeps:
  "channelRef (clearCanvas s) = channelRef s"
  "onlineUsers (clearCanvas s) = onlineUsers s"
  by (simp_all add: clearCanvas_def putContext_keeps split: option.split)

lemma foldl_drawRemoteStroke_keeps:
  "onlineUsers (foldl (\<lambda>s' data. drawRemoteStroke data s') s ds) = onlineUsers s"
  "channelRef (foldl (\<lambda>s' data. drawRemoteStroke data s') s ds) = channelRef s"
  "drawingHistory (foldl (\<lambda>s' data. drawRemoteStroke data s') s ds) = drawingHistory s"
  by (induction ds arbitrary: s) (simp_all add: drawRemoteStroke_keeps)

lemma redrawCanvas_keeps:
  "onlineUsers (redrawCanvas s) = onlineUsers s"
  "channelRef (redrawCanvas s) = channelRef s"
  by (simp_all add: redrawCanvas_def Let_def foldl_drawRemoteStroke_keeps clearCanvas_keeps split: option.split)

text \<open>What a replay paints: on a replica with a context, a stroke with at least one
  point, a positive size and, for a \<open>draw\<close> stroke, a colour the context parses adds
  exactly \<open>replayed\<close> to the surface.\<close>

lemma drawRemoteStroke_surface:
  assumes "getContext s = Some c" and "points d \<noteq> []" and "0 < size_d d"
    and "type_d d = draw_t \<longrightarrow> validColor c (color_d d)"
  shows "surface (drawRemoteStroke d s) = Some (bitmap c @ [replayed d c])"
proof -
  obtain p0 ps where ps: "points d = p0 # ps" using assms(2) by (cases "points d") auto
  show ?thesis
    using assms(1,3,4) ps
    by (cases "type_d d")
       (simp_all add: drawRemoteStroke_def Let_def foldl_lineTo lineTo_fields moveTo_def beginPath_def
          stroke_def surface_putContext replayed_def set_lineWidth_def set_strokeStyle_def
          validColor_def)
qed

text \<open>\<open>clearCanvas\<close> empties the history whenever it has a context. What it leaves on the
  surface depends on the compositing operation the context holds at that moment.\<close>

lemma clearCanvas_history:
  "getContext s = Some c \<Longrightarrow> drawingHistory (clearCanvas s) = []"
  by (simp add: clearCanvas_def)

lemma clearCanvas_surface:
  "getContext s = Some c \<Longrightarrow>
     surface (clearCanvas s) =
       Some (case globalCompositeOperation c of source_over \<Rightarrow> blank | destination_out \<Rightarrow> [])"
  by (cases "globalCompositeOperation c")
     (simp_all add: clearCanvas_def surface_def getContext_def putContext_def fillRect_def blank_def
        set_fillStyle_def validColor_white split: option.splits)

text \<open>\<open>handleUndo\<close> never publishes. On a non-empty history it leaves the history without
  its last entry when there is no context to draw on, and empty when there is one:
  \<open>redrawCanvas\<close> goes through \<open>clearCanvas\<close>, which resets the history before the replay
  loop reads it.\<close>

lemma handleUndo_published: "published (handleUndo s) = published s"
  by (simp add: handleUndo_def published_def redrawCanvas_keeps)

lemma handleUndo_history:
  "drawingHistory s \<noteq> [] \<Longrightarrow>
     drawingHistory (handleUndo s) =
       (case getContext s of None \<Rightarrow> butlast (drawingHistory s) | Some _ \<Rightarrow> [])"
  by (cases "getContext s")
     (simp_all add: handleUndo_def redrawCanvas_def getContext_def clearCanvas_def putContext_keeps)

text \<open>\<open>handleClear\<close>: nothing while not connected; otherwise, with a context and a channel
  handle, an empty history, one publish call of topic \<open>clear\<close>, and the surface
  \<open>clearCanvas\<close> leaves.\<close>

lemma handleClear_result:
  "(\<not> isConnected s \<longrightarrow> handleClear ok s = (s, None)) \<and>
   (isConnected s \<longrightarrow> getContext s = Some c \<longrightarrow> channelRef s = Some ch \<longrightarrow>
      drawingHistory (fst (handleClear ok s)) = [] \<and>
      published (fst (handleClear ok s)) =
        ch @ [\<lparr>topic = ''clear'', payload = None, meta_userId = user_id s\<rparr>] \<and>
      surface (fst (handleClear ok s)) =
        Some (case globalCompositeOperation c of source_over \<Rightarrow> blank | destination_out \<Rightarrow> []))"
proof (intro conjI impI)
  assume "\<not> isConnected s"
  then show "handleClear ok s = (s, None)" by (simp add: handleClear_def)
next
  assume a: "isConnected s" "getContext s = Some c" "channelRef s = Some ch"
  then show "drawingHistory (fst (handleClear ok s)) = []"
    by (simp add: handleClear_def Let_def clearCanvas_keeps clearCanvas_history)
  from a show "published (fst (handleClear ok s)) =
      ch @ [\<lparr>topic = ''clear'', payload = None, meta_userId = user_id s\<rparr>]"
    by (simp add: handleClear_def Let_def clearCanvas_keeps published_def publish_def)
  from a have "surface (fst (handleClear ok s)) = surface (clearCanvas s)"
    by (simp add: handleClear_def Let_def clearCanvas_keeps surface_def getContext_def)
  with a show "surface (fst (handleClear ok s)) =
        Some (case globalCompositeOperation c of source_over \<Rightarrow> blank | destination_out \<Rightarrow> [])"
    by (simp add: clearCanvas_surface)
qed

text \<open>Renders, and a gesture in which a render follows the press and every move.\<close>

lemma render_render: "render (render s) = render s"
  by (simp add: render_def)

lemma render_keeps:
  "drawingHistory (render s) = drawingHistory s"
  "channelRef (render s) = channelRef s"
  "canvasRef (render s) = canvasRef s"
  "held (render s) = held s"
  "user_id (render s) = user_id s"
  "getCanvasCoordinates e (render s) = getCanvasCoordinates e s"
  by (simp_all add: render_def getCanvasCoordinates_def)

lemma settled_cells:
  assumes "render s = s"
  shows "st_isDrawing (held s) = isDrawing s" "st_tool (held s) = tool s"
    "st_color (held s) = color s" "st_size (held s) = size_s s"
    "st_currentStroke (held s) = currentStroke s" "st_isConnected (held s) = isConnected s"
proof -
  have "isDrawing (render s) = isDrawing s" "tool (render s) = tool s"
    "color (render s) = color s" "size_s (render s) = size_s s"
    "currentStroke (render s) = currentStroke s" "isConnected (render s) = isConnected s"
    using assms by simp_all
  then show "st_isDrawing (held s) = isDrawing s" "st_tool (held s) = tool s"
    "st_color (held s) = color s" "st_size (held s) = size_s s"
    "st_currentStroke (held s) = currentStroke s" "st_isConnected (held s) = isConnected s"
    by (simp_all add: render_def)
qed

lemma press_rendered:
  assumes "isConnected s" and "render s = s"
  shows "isDrawing (render (startDrawing e s))" "isConnected (render (startDrawing e s))"
    "currentStroke (render (startDrawing e s)) = [getCanvasCoordinates e s]"
    "drawingHistory (render (startDrawing e s)) = drawingHistory s"
    "tool (render (startDrawing e s)) = tool s" "color (render (startDrawing e s)) = color s"
    "size_s (render (startDrawing e s)) = size_s s"
    "getCanvasCoordinates e' (render (startDrawing e s)) = getCanvasCoordinates e' s"
  using assms(1) settled_cells [OF assms(2)]
  by (simp_all add: startDrawing_def Let_def render_def setIsDrawing_def setCurrentStroke_def
        putContext_keeps getCanvasCoordinates_putContext getCanvasCoordinates_update
        split: option.split)

lemma move_rendered:
  assumes "isDrawing s" and "isConnected s" and "render s = s"
  shows "isDrawing (render (draw e s))" "isConnected (render (draw e s))"
    "currentStroke (render (draw e s)) = currentStroke s @ [getCanvasCoordinates e s]"
    "drawingHistory (render (draw e s)) = drawingHistory s"
    "tool (render (draw e s)) = tool s" "color (render (draw e s)) = color s"
    "size_s (render (draw e s)) = size_s s"
    "getCanvasCoordinates e' (render (draw e s)) = getCanvasCoordinates e' s"
  using assms(1,2) settled_cells [OF assms(3)]
  by (simp_all add: draw_def Let_def render_def setCurrentStroke_def
        putContext_keeps getCanvasCoordinates_putContext getCanvasCoordinates_update
        split: option.split)

lemma moves_rendered:
  assumes "isDrawing s" and "isConnected s" and "render s = s"
  shows "isDrawing (run (concat (map (\<lambda>e. [PointerMove e, Render]) es)) s) \<and>
    isConnected (run (concat (map (\<lambda>e. [PointerMove e, Render]) es)) s) \<and>
    currentStroke (run (concat (map (\<lambda>e. [PointerMove e, Render]) es)) s) =
      currentStroke s @ map (\<lambda>e. getCanvasCoordinates e s) es \<and>
    drawingHistory (run (concat (map (\<lambda>e. [PointerMove e, Render]) es)) s) = drawingHistory s \<and>
    tool (run (concat (map (\<lambda>e. [PointerMove e, Render]) es)) s) = tool s \<and>
    color (run (concat (map (\<lambda>e. [PointerMove e, Render]) es)) s) = color s \<and>
    size_s (run (concat (map (\<lambda>e. [PointerMove e, Render]) es)) s) = size_s s"
  using assms
proof (induction es arbitrary: s)
  case Nil
  then show ?case by (simp add: run_def)
next
  case (Cons e es)
  note m = move_rendered [OF Cons.prems]
  have r: "render (render (draw e s)) = render (draw e s)" by (rule render_render)
  from Cons.IH [OF m(1,2) r] show ?case
    by (simp add: run_def m)
qed

lemma stopDrawing_begin_history:
  assumes "isDrawing s" and "isConnected s" and "currentStroke s \<noteq> []"
  shows "drawingHistory (fst (stopDrawing_begin now_id now_ts s)) =
           drawingHistory s @
             [\<lparr>id_d = toString now_id,
               type_d = (if tool s = pen then draw_t else erase_t),
               points = currentStroke s,
               color_d = color s,
               size_d = size_s s,
               timestamp = now_ts\<rparr>]"
  using assms
  by (simp add: stopDrawing_begin_def Let_def setter_defs split: option.split)

lemma handle_onlineUsers:
  "onlineUsers (handle ev s) = (case ev of Presence users \<Rightarrow> users | _ \<Rightarrow> onlineUsers s)"
  by (cases ev)
     (simp_all add: startDrawing_def draw_def stopDrawing_begin_def stopDrawing_resume_def
        handleClear_def handleUndo_def render_def setter_defs
        onMessage_def onPresence_def Let_def putContext_keeps drawRemoteStroke_keeps
        clearCanvas_keeps redrawCanvas_keeps split: option.split)

subsection \<open>The example replicas, evaluated\<close>

lemmas example_defs =
  replicaB_def replicaB0_def mounted_def mountCanvas_def board_def defaultContext_def run_def

lemmas handler_defs =
  startDrawing_def draw_def stopDrawing_def stopDrawing_begin_def stopDrawing_resume_def
  drawRemoteStroke_def clearCanvas_def
  handleClear_def redrawCanvas_def handleUndo_def onMessage_def onPresence_def render_def
  setIsDrawing_def setTool_def setColor_def setSize_def setCurrentStroke_def setIsConnected_def
  getContext_def putContext_def getCanvasCoordinates_def publish_def
  beginPath_def moveTo_def lineTo_def stroke_def fillRect_def
  set_strokeStyle_def set_fillStyle_def set_lineWidth_def validColor_def hexColor_def
  hexDigit_def Let_def

lemma replicaB_eq:
  "replicaB =
     \<lparr>user_id = ''B'', isDrawing = False, tool = pen, color = ''#000000'', size_s = 3,
      currentStroke = [], onlineUsers = [], isConnected = True,
      held = \<lparr>st_isDrawing = False, st_tool = pen, st_color = ''#000000'', st_size = 3,
              st_currentStroke = [], st_isConnected = True\<rparr>,
      awaited = 0, drawingHistory = [], channelRef = Some [],
      canvasRef = Some \<lparr>rect_left = 0, rect_top = 0, context2d = Some
        \<lparr>globalCompositeOperation = source_over, strokeStyle = ''#000000'', lineWidth = 1,
         fillStyle = ''#ffffff'', lineCap = ''round'', lineJoin = ''round'', path = [],
         bitmap = [Fill ''#ffffff''], otherColor = colorKeywords\<rparr>\<rparr>\<rparr>"
  by (simp add: example_defs handler_defs)

lemma midGesture_eq:
  "midGesture =
     \<lparr>user_id = ''B'', isDrawing = True, tool = pen, color = ''#000000'', size_s = 3,
      currentStroke = [(0, 0), (10, 10)], onlineUsers = [], isConnected = True,
      held = \<lparr>st_isDrawing = True, st_tool = pen, st_color = ''#000000'', st_size = 3,
              st_currentStroke = [(0, 0), (10, 10)], st_isConnected = True\<rparr>,
      awaited = 0, drawingHistory = [], channelRef = Some [],
      canvasRef = Some \<lparr>rect_left = 0, rect_top = 0, context2d = Some
        \<lparr>globalCompositeOperation = source_over, strokeStyle = ''#000000'', lineWidth = 3,
         fillStyle = ''#ffffff'', lineCap = ''round'', lineJoin = ''round'',
         path = [[(0, 0), (10, 10)]],
         bitmap = [Fill ''#ffffff'',
                   Stroke source_over ''#000000'' 3 [[(0, 0), (10, 10)]]],
         otherColor = colorKeywords\<rparr>\<rparr>\<rparr>"
  unfolding midGesture_def run_def replicaB_eq
  by (simp add: handler_defs)

lemma oneStroke_eq:
  "oneStroke =
     \<lparr>user_id = ''B'', isDrawing = False, tool = pen, color = ''#000000'', size_s = 3,
      currentStroke = [], onlineUsers = [], isConnected = True,
      held = \<lparr>st_isDrawing = False, st_tool = pen, st_color = ''#000000'', st_size = 3,
              st_currentStroke = [], st_isConnected = True\<rparr>,
      awaited = 0,
      drawingHistory =
        [\<lparr>id_d = toString 1700, type_d = draw_t, points = [(0, 0), (10, 10)],
          color_d = ''#000000'', size_d = 3, timestamp = 1700\<rparr>],
      channelRef = Some
        [\<lparr>topic = ''draw'',
          payload = Some \<lparr>id_d = toString 1700, type_d = draw_t, points = [(0, 0), (10, 10)],
            color_d = ''#000000'', size_d = 3, timestamp = 1700\<rparr>,
          meta_userId = ''B''\<rparr>],
      canvasRef = Some \<lparr>rect_left = 0, rect_top = 0, context2d = Some
        \<lparr>globalCompositeOperation = source_over, strokeStyle = ''#000000'', lineWidth = 3,
         fillStyle = ''#ffffff'', lineCap = ''round'', lineJoin = ''round'',
         path = [[(0, 0), (10, 10)]],
         bitmap = [Fill ''#ffffff'',
                   Stroke source_over ''#000000'' 3 [[(0, 0), (10, 10)]]],
         otherColor = colorKeywords\<rparr>\<rparr>\<rparr>"
  unfolding oneStroke_def dragGesture_def run_def replicaB_eq
  by (simp add: handler_defs)

lemma twoStrokes_facts:
  "length (drawingHistory twoStrokes) = 2"
  "getContext twoStrokes \<noteq> None"
  unfolding twoStrokes_def dragGesture_def run_def oneStroke_eq
  by (simp_all add: handler_defs)

lemma erased_eq:
  "erased =
     \<lparr>user_id = ''B'', isDrawing = False, tool = eraser, color = ''#000000'', size_s = 3,
      currentStroke = [], onlineUsers = [], isConnected = True,
      held = \<lparr>st_isDrawing = False, st_tool = eraser, st_color = ''#000000'', st_size = 3,
              st_currentStroke = [], st_isConnected = True\<rparr>,
      awaited = 0,
      drawingHistory =
        [\<lparr>id_d = toString 1700, type_d = erase_t, points = [(0, 0), (10, 10)],
          color_d = ''#000000'', size_d = 3, timestamp = 1700\<rparr>],
      channelRef = Some
        [\<lparr>topic = ''draw'',
          payload = Some \<lparr>id_d = toString 1700, type_d = erase_t, points = [(0, 0), (10, 10)],
            color_d = ''#000000'', size_d = 3, timestamp = 1700\<rparr>,
          meta_userId = ''B''\<rparr>],
      canvasRef = Some \<lparr>rect_left = 0, rect_top = 0, context2d = Some
        \<lparr>globalCompositeOperation = destination_out, strokeStyle = ''#000000'', lineWidth = 6,
         fillStyle = ''#ffffff'', lineCap = ''round'', lineJoin = ''round'',
         path = [[(0, 0), (10, 10)]],
         bitmap = [Fill ''#ffffff'',
                   Stroke destination_out ''#000000'' 6 [[(0, 0), (10, 10)]]],
         otherColor = colorKeywords\<rparr>\<rparr>\<rparr>"
  unfolding erased_def dragGesture_def run_def replicaB_eq
  by (simp add: handler_defs)

section \<open>The claims\<close>

subsection \<open>C1: inbound draw messages of other participants\<close>

text \<open>
  C1, as the code has it. For every inbound message of type \<open>draw\<close> whose \<open>userId\<close>
  differs from the local \<open>user.id\<close>, the handler leaves the local history as it was
  (the stroke is not appended) and makes no publish call; and when the replica has a
  canvas context and the stroke is well formed (at least one point, a positive size
  and, for a \<open>draw\<close> stroke, a colour the context parses), it adds the replayed stroke
  to the surface.
\<close>

theorem remote_draw_rendered_not_appended:
  assumes "m_type m = ''draw''" and "m_userId m \<noteq> user_id s"
  shows "drawingHistory (onMessage m s) = drawingHistory s \<and>
         published (onMessage m s) = published s \<and>
         (\<forall>c. getContext s = Some c \<longrightarrow> points (m_data m) \<noteq> [] \<longrightarrow>
              0 < size_d (m_data m) \<longrightarrow>
              (type_d (m_data m) = draw_t \<longrightarrow> validColor c (color_d (m_data m))) \<longrightarrow>
              surface (onMessage m s) = Some (bitmap c @ [replayed (m_data m) c]))"
  using assms
  by (simp add: onMessage_def drawRemoteStroke_keeps published_def drawRemoteStroke_surface)

text \<open>A run of C1's theorem: participant \<open>B\<close>, connected, receives the stroke of \<open>A\<close>.\<close>

theorem remote_draw_witness:
  "drawingHistory (onMessage messageA replicaB) = [] \<and>
   published (onMessage messageA replicaB) = [] \<and>
   surface (onMessage messageA replicaB) =
     Some [Fill ''#ffffff'', Stroke source_over ''#ff0000'' 3 [[(0, 0), (0, 0), (10, 10)]]]"
proof -
  have a: "m_type messageA = ''draw''" by (simp add: messageA_def)
  have b: "m_userId messageA \<noteq> user_id replicaB" by (simp add: messageA_def replicaB_eq)
  obtain c where c: "getContext replicaB = Some c" and bm: "bitmap c = [Fill ''#ffffff'']"
    by (simp add: replicaB_eq getContext_def)
  have d: "points (m_data messageA) \<noteq> []" "0 < size_d (m_data messageA)"
    "validColor c (color_d (m_data messageA))"
    by (simp_all add: messageA_def strokeA_def validColor_def hexColor_def hexDigit_def)
  from remote_draw_rendered_not_appended [OF a b] c d bm show ?thesis
    by (simp add: replicaB_eq published_def replayed_def messageA_def strokeA_def)
qed

text \<open>C1 as stated fails there: the message is a draw message of another participant,
  and the history of \<open>B\<close> after it is empty, not the history before with the stroke
  appended.\<close>

theorem remote_draw_counterexample:
  "m_type messageA = ''draw'' \<and> m_userId messageA \<noteq> user_id replicaB \<and>
   drawingHistory (onMessage messageA replicaB) = [] \<and>
   drawingHistory (onMessage messageA replicaB) \<noteq> drawingHistory replicaB @ [m_data messageA]"
  unfolding replicaB_eq by (simp add: messageA_def strokeA_def handler_defs)

text \<open>A stroke that is not well formed is painted all the same, with the style and width
  the context held before: the setters ignore a string that is no colour and a
  negative width.\<close>

lemma bogus_style_not_applied:
  "surface (onMessage messageBogus replicaB) =
     Some [Fill ''#ffffff'', Stroke source_over ''#000000'' 1 [[(0, 0), (0, 0), (10, 10)]]]"
  unfolding replicaB_eq
  by (simp add: messageBogus_def strokeA_def handler_defs surface_def colorKeywords_def)

subsection \<open>C2: undo\<close>

text \<open>
  C2 at a concrete replica: participant \<open>B\<close> has committed two strokes, so the history
  has length 2. \<open>handleUndo\<close> leaves a history of length 0, where removing the last
  entry would leave length 1.
\<close>

theorem undo_after_two_strokes:
  "length (drawingHistory twoStrokes) = 2 \<and>
   length (drawingHistory (handleUndo twoStrokes)) = 0 \<and>
   length (butlast (drawingHistory twoStrokes)) = 1"
proof -
  have "drawingHistory twoStrokes \<noteq> []" using twoStrokes_facts(1) by auto
  from handleUndo_history [OF this] twoStrokes_facts show ?thesis by auto
qed

subsection \<open>C3: clear\<close>

text \<open>
  C3 at a concrete replica: participant \<open>B\<close>, connected, has made one gesture with the
  eraser, which leaves the context on \<open>destination-out\<close>. \<open>handleClear\<close> empties the
  history and publishes the clear message, but the white fill of \<open>clearCanvas\<close> is
  composited with \<open>destination-out\<close>: the surface ends transparent, not as the blank
  white fill.
\<close>

theorem clear_after_eraser_leaves_transparent:
  "isConnected erased \<and>
   surface erased =
     Some [Fill ''#ffffff'', Stroke destination_out ''#000000'' 6 [[(0, 0), (10, 10)]]] \<and>
   drawingHistory (fst (handleClear True erased)) = [] \<and>
   map topic (published (fst (handleClear True erased))) = [''draw'', ''clear''] \<and>
   surface (fst (handleClear True erased)) = Some [] \<and>
   Some [] \<noteq> Some blank"
  unfolding erased_eq by (simp add: handler_defs surface_def blank_def published_def)

subsection \<open>C4: round trip of a gesture\<close>

text \<open>
  C4 at a concrete gesture: participant \<open>B\<close> presses at \<open>(0,0)\<close>, moves to \<open>(10,10)\<close>
  and releases before React has rendered the move. React holds both samples and the
  surface shows the line between them, but \<open>stopDrawing\<close> reads the \<open>currentStroke\<close> of
  the last render: the committed stroke has the first sample only.
\<close>

theorem release_before_render_drops_sample:
  "st_currentStroke (held
     (run [PointerDown \<lparr>clientX = 0, clientY = 0\<rparr>, Render,
           PointerMove \<lparr>clientX = 10, clientY = 10\<rparr>] replicaB)) = [(0, 0), (10, 10)] \<and>
   map points (drawingHistory hastyRelease) = [[(0, 0)]] \<and>
   surface hastyRelease =
     Some [Fill ''#ffffff'', Stroke source_over ''#000000'' 3 [[(0, 0), (10, 10)]]]"
  unfolding hastyRelease_def run_def replicaB_eq
  by (simp add: handler_defs surface_def)

text \<open>The reset that follows the \<open>await\<close> in \<open>stopDrawing\<close> loses samples as well: when it
  lands in the next gesture, that gesture's samples so far are gone. Of the samples
  \<open>(20,20)\<close>, \<open>(30,30)\<close>, \<open>(40,40)\<close> of the second gesture only the last is
  committed.\<close>

lemma reset_lands_in_next_gesture:
  "map points (drawingHistory overlappingGestures) = [[(0, 0), (10, 10)], [(40, 40)]]"
  unfolding overlappingGestures_def run_def replicaB_eq
  by (simp add: handler_defs)

text \<open>
  When React renders after the press and after every move, and nothing else happens
  during the gesture, the round trip holds. On a connected replica whose handlers see
  the state React holds, such a gesture commits exactly one stroke \<open>d\<close> at the end of the
  history; its points are the canvas coordinates of the samples, all of them and in
  order; its colour, size and kind are the configured colour, size and tool; and
  replaying \<open>d\<close>, when it is well formed, paints one stroked path that starts at the first
  sample and then visits every sample in order.
\<close>

lemma rendered_gesture_round_trip:
  assumes "isConnected s" and "render s = s"
  shows "let samples = map (\<lambda>e. getCanvasCoordinates e s) (e0 # es);
             s' = run (renderedGesture e0 es now_id now_ts) s;
             d = last (drawingHistory s')
         in drawingHistory s' = drawingHistory s @ [d] \<and>
            points d = samples \<and>
            color_d d = color s \<and>
            size_d d = size_s s \<and>
            type_d d = (if tool s = pen then draw_t else erase_t) \<and>
            (\<forall>r c. getContext r = Some c \<longrightarrow> 0 < size_s s \<longrightarrow>
               (tool s = pen \<longrightarrow> validColor c (color s)) \<longrightarrow>
               surface (drawRemoteStroke d r) = Some (bitmap c @ [replayed d c]) \<and>
               (\<exists>op style width. replayed d c = Stroke op style width [hd samples # samples]))"
proof -
  let ?s1 = "render (startDrawing e0 s)"
  let ?s2 = "run (concat (map (\<lambda>e. [PointerMove e, Render]) es)) ?s1"
  note f1 = press_rendered [OF assms, where e = e0]
  have r1: "render ?s1 = ?s1" by (rule render_render)
  note f2 = moves_rendered [OF f1(1,2) r1, of es]
  have cs: "currentStroke ?s2 = map (\<lambda>e. getCanvasCoordinates e s) (e0 # es)"
    using f2 by (simp add: f1)
  then have ne: "currentStroke ?s2 \<noteq> []" by simp
  have "isDrawing ?s2" "isConnected ?s2" using f2 by simp_all
  from stopDrawing_begin_history [OF this ne, of now_id now_ts]
  have h: "drawingHistory (fst (stopDrawing_begin now_id now_ts ?s2)) =
      drawingHistory s @
        [\<lparr>id_d = toString now_id, type_d = (if tool s = pen then draw_t else erase_t),
          points = map (\<lambda>e. getCanvasCoordinates e s) (e0 # es),
          color_d = color s, size_d = size_s s, timestamp = now_ts\<rparr>]"
    using f2 cs by (simp add: f1)
  have run_eq: "run (renderedGesture e0 es now_id now_ts) s =
      fst (stopDrawing_begin now_id now_ts ?s2)"
    by (simp add: renderedGesture_def run_def)
  show ?thesis
    unfolding Let_def run_eq h
    by (auto simp add: drawRemoteStroke_surface replayed_def split: stroke_type.split)
qed

lemma rendered_gesture_example:
  "isConnected replicaB \<and> render replicaB = replicaB \<and>
   map points (drawingHistory
     (run (renderedGesture \<lparr>clientX = 0, clientY = 0\<rparr> [\<lparr>clientX = 10, clientY = 10\<rparr>] 1700 1700)
        replicaB)) = [[(0, 0), (10, 10)]]"
proof -
  let ?H = "drawingHistory
     (run (renderedGesture \<lparr>clientX = 0, clientY = 0\<rparr> [\<lparr>clientX = 10, clientY = 10\<rparr>] 1700 1700)
        replicaB)"
  have a: "isConnected replicaB" "render replicaB = replicaB"
    by (simp_all add: replicaB_eq render_def)
  have g: "getCanvasCoordinates \<lparr>clientX = 0, clientY = 0\<rparr> replicaB = (0, 0)"
    "getCanvasCoordinates \<lparr>clientX = 10, clientY = 10\<rparr> replicaB = (10, 10)"
    "drawingHistory replicaB = []"
    by (simp_all add: replicaB_eq getCanvasCoordinates_def)
  from rendered_gesture_round_trip [OF a, of "\<lparr>clientX = 0, clientY = 0\<rparr>"
      "[\<lparr>clientX = 10, clientY = 10\<rparr>]" 1700 1700]
  have h: "?H = [last ?H]" and p: "points (last ?H) = [(0, 0), (10, 10)]"
    by (simp_all add: Let_def g)
  have "map points ?H = [points (last ?H)]"
    by (subst h) simp
  with p a show ?thesis by simp
qed

subsection \<open>C5: a publish that fails\<close>

text \<open>
  C5. When \<open>stopDrawing\<close> commits a stroke and the publish call fails, the handler ends
  with the rejection, and the state it leaves has the stroke at the end of the
  history, the same history as after a successful publish, the canvas and its surface
  untouched, and exactly one publish call recorded: nothing is rolled back and nothing
  is sent again.
\<close>

theorem failed_publish_keeps_stroke:
  assumes "isDrawing s" and "isConnected s" and "currentStroke s \<noteq> []"
    and "channelRef s = Some ch"
  shows "let d = \<lparr>id_d = toString now_id,
                  type_d = (if tool s = pen then draw_t else erase_t),
                  points = currentStroke s, color_d = color s, size_d = size_s s,
                  timestamp = now_ts\<rparr>;
             failed = stopDrawing now_id now_ts False s;
             delivered = stopDrawing now_id now_ts True s
         in snd failed = Some PublishError \<and>
            drawingHistory (fst failed) = drawingHistory s @ [d] \<and>
            drawingHistory (fst failed) = drawingHistory (fst delivered) \<and>
            canvasRef (fst failed) = canvasRef s \<and>
            surface (fst failed) = surface s \<and>
            published (fst failed) =
              ch @ [\<lparr>topic = ''draw'', payload = Some d, meta_userId = user_id s\<rparr>]"
  using assms
  by (simp add: stopDrawing_def stopDrawing_begin_def stopDrawing_resume_def setter_defs
        Let_def published_def publish_def surface_def getContext_def)

text \<open>A run of C5's theorem: participant \<open>B\<close> releases the pointer in the middle of a gesture
  and the publication fails.\<close>

theorem failed_publish_witness:
  "isDrawing midGesture \<and> isConnected midGesture \<and>
   snd (stopDrawing 1700 1700 False midGesture) = Some PublishError \<and>
   drawingHistory (fst (stopDrawing 1700 1700 False midGesture)) =
     [\<lparr>id_d = toString 1700, type_d = draw_t, points = [(0, 0), (10, 10)],
       color_d = ''#000000'', size_d = 3, timestamp = 1700\<rparr>] \<and>
   surface (fst (stopDrawing 1700 1700 False midGesture)) =
     Some [Fill ''#ffffff'', Stroke source_over ''#000000'' 3 [[(0, 0), (10, 10)]]] \<and>
   length (published (fst (stopDrawing 1700 1700 False midGesture))) = 1"
proof -
  have a: "isDrawing midGesture" "isConnected midGesture" "currentStroke midGesture \<noteq> []"
    "channelRef midGesture = Some []"
    by (simp_all add: midGesture_eq)
  from failed_publish_keeps_stroke [OF a, of 1700 1700] a(1,2) show ?thesis
    by (simp add: Let_def midGesture_eq surface_def getContext_def)
qed

subsection \<open>C6: the eraser\<close>

text \<open>
  C6, for well-formed strokes: a positive size and, for the pen, a colour the context
  parses. On a replica with a context \<open>c\<close>, a pointer move of a gesture in progress
  strokes the path with the configured colour and size when the tool is the pen, and
  with \<open>destination-out\<close> and twice the size when it is the eraser; with the eraser the
  result does not depend on the configured colour. A replay strokes with the stroke's
  colour and size for a \<open>draw\<close> stroke, and with \<open>destination-out\<close> and twice the size
  for an \<open>erase\<close> stroke; for an \<open>erase\<close> stroke the result does not depend on the
  stroke's colour.
\<close>

theorem eraser_doubles_width_ignores_color:
  assumes "getContext s = Some c"
  shows "(isDrawing s \<and> isConnected s \<and> 0 < size_s s \<longrightarrow>
            (tool s = pen \<and> validColor c (color s) \<longrightarrow>
               surface (draw e s) =
                 Some (bitmap c @
                   [Stroke source_over (color s) (size_s s)
                      (path (lineTo (getCanvasCoordinates e s) c))])) \<and>
            (tool s \<noteq> pen \<longrightarrow>
               surface (draw e s) =
                 Some (bitmap c @
                   [Stroke destination_out (strokeStyle c) (size_s s * 2)
                      (path (lineTo (getCanvasCoordinates e s) c))]))) \<and>
         (tool s \<noteq> pen \<longrightarrow> surface (draw e (s\<lparr>color := k\<rparr>)) = surface (draw e s)) \<and>
         (points d \<noteq> [] \<and> 0 < size_d d \<longrightarrow>
            (type_d d = draw_t \<and> validColor c (color_d d) \<longrightarrow>
               surface (drawRemoteStroke d s) =
                 Some (bitmap c @
                   [Stroke source_over (color_d d) (size_d d) [hd (points d) # points d]])) \<and>
            (type_d d \<noteq> draw_t \<longrightarrow>
               surface (drawRemoteStroke d s) =
                 Some (bitmap c @
                   [Stroke destination_out (strokeStyle c) (size_d d * 2)
                      [hd (points d) # points d]]))) \<and>
         (type_d d \<noteq> draw_t \<longrightarrow> drawRemoteStroke (d\<lparr>color_d := k\<rparr>) s = drawRemoteStroke d s)"
proof -
  have pen_local: "surface (draw e s) =
       Some (bitmap c @
         [Stroke source_over (color s) (size_s s) (path (lineTo (getCanvasCoordinates e s) c))])"
    if "isDrawing s" "isConnected s" "0 < size_s s" "tool s = pen" "validColor c (color s)"
    using that assms
    by (cases "canvasRef s")
       (simp_all add: draw_def Let_def surface_def getContext_def putContext_def stroke_def
          lineTo_fields getCanvasCoordinates_def setCurrentStroke_def set_lineWidth_def
          set_strokeStyle_def validColor_def)
  have eraser_local: "surface (draw e s) =
       Some (bitmap c @
         [Stroke destination_out (strokeStyle c) (size_s s * 2)
            (path (lineTo (getCanvasCoordinates e s) c))])"
    if "isDrawing s" "isConnected s" "0 < size_s s" "tool s \<noteq> pen"
    using that assms
    by (cases "canvasRef s")
       (simp_all add: draw_def Let_def surface_def getContext_def putContext_def stroke_def
          lineTo_fields getCanvasCoordinates_def setCurrentStroke_def set_lineWidth_def)
  have local_color: "surface (draw e (s\<lparr>color := k\<rparr>)) = surface (draw e s)"
    if "tool s \<noteq> pen"
    using that assms
    by (cases "canvasRef s")
       (simp_all add: draw_def Let_def surface_def getContext_def putContext_def stroke_def
          lineTo_fields getCanvasCoordinates_def setCurrentStroke_def)
  have remote: "surface (drawRemoteStroke d s) = Some (bitmap c @ [replayed d c])"
    if "points d \<noteq> []" "0 < size_d d" "type_d d = draw_t \<longrightarrow> validColor c (color_d d)"
    using drawRemoteStroke_surface [OF assms that] .
  have remote_color: "drawRemoteStroke (d\<lparr>color_d := k\<rparr>) s = drawRemoteStroke d s"
    if "type_d d \<noteq> draw_t"
    using that by (simp add: drawRemoteStroke_def Let_def split: option.split list.split)
  show ?thesis
  proof (intro conjI impI)
    assume "isDrawing s \<and> isConnected s \<and> 0 < size_s s" "tool s = pen \<and> validColor c (color s)"
    then show "surface (draw e s) =
       Some (bitmap c @
         [Stroke source_over (color s) (size_s s) (path (lineTo (getCanvasCoordinates e s) c))])"
      using pen_local by blast
  next
    assume "isDrawing s \<and> isConnected s \<and> 0 < size_s s" "tool s \<noteq> pen"
    then show "surface (draw e s) =
       Some (bitmap c @
         [Stroke destination_out (strokeStyle c) (size_s s * 2)
            (path (lineTo (getCanvasCoordinates e s) c))])"
      using eraser_local by blast
  next
    assume "tool s \<noteq> pen"
    then show "surface (draw e (s\<lparr>color := k\<rparr>)) = surface (draw e s)" by (rule local_color)
  next
    assume "points d \<noteq> [] \<and> 0 < size_d d" "type_d d = draw_t \<and> validColor c (color_d d)"
    then show "surface (drawRemoteStroke d s) =
       Some (bitmap c @ [Stroke source_over (color_d d) (size_d d) [hd (points d) # points d]])"
      using remote by (simp add: replayed_def)
  next
    assume "points d \<noteq> [] \<and> 0 < size_d d" "type_d d \<noteq> draw_t"
    then show "surface (drawRemoteStroke d s) =
       Some (bitmap c @
         [Stroke destination_out (strokeStyle c) (size_d d * 2) [hd (points d) # points d]])"
      using remote by (cases "type_d d") (simp_all add: replayed_def)
  next
    assume "type_d d \<noteq> draw_t"
    then show "drawRemoteStroke (d\<lparr>color_d := k\<rparr>) s = drawRemoteStroke d s"
      by (rule remote_color)
  qed
qed

text \<open>A run of C6's theorem: an eraser of size 5 and a red pen in the middle of a gesture,
  and replays of the stroke of \<open>A\<close> as an erase and as a draw stroke.\<close>

theorem eraser_witness:
  "surface (draw \<lparr>clientX = 20, clientY = 5\<rparr> (midGesture\<lparr>tool := eraser, size_s := 5\<rparr>)) =
     Some [Fill ''#ffffff'', Stroke source_over ''#000000'' 3 [[(0, 0), (10, 10)]],
           Stroke destination_out ''#000000'' 10 [[(0, 0), (10, 10), (20, 5)]]] \<and>
   surface (draw \<lparr>clientX = 20, clientY = 5\<rparr>
       (midGesture\<lparr>tool := eraser, size_s := 5, color := ''#ff0000''\<rparr>)) =
     surface (draw \<lparr>clientX = 20, clientY = 5\<rparr> (midGesture\<lparr>tool := eraser, size_s := 5\<rparr>)) \<and>
   surface (draw \<lparr>clientX = 20, clientY = 5\<rparr> (midGesture\<lparr>color := ''#ff0000''\<rparr>)) =
     Some [Fill ''#ffffff'', Stroke source_over ''#000000'' 3 [[(0, 0), (10, 10)]],
           Stroke source_over ''#ff0000'' 3 [[(0, 0), (10, 10), (20, 5)]]] \<and>
   surface (drawRemoteStroke (strokeA\<lparr>type_d := erase_t\<rparr>) replicaB) =
     Some [Fill ''#ffffff'', Stroke destination_out ''#000000'' 6 [[(0, 0), (0, 0), (10, 10)]]] \<and>
   drawRemoteStroke (strokeA\<lparr>type_d := erase_t, color_d := ''#00ff00''\<rparr>) replicaB =
     drawRemoteStroke (strokeA\<lparr>type_d := erase_t\<rparr>) replicaB \<and>
   surface (drawRemoteStroke strokeA replicaB) =
     Some [Fill ''#ffffff'', Stroke source_over ''#ff0000'' 3 [[(0, 0), (0, 0), (10, 10)]]]"
proof -
  let ?m = "midGesture\<lparr>tool := eraser, size_s := 5\<rparr>"
  let ?p = "midGesture\<lparr>color := ''#ff0000''\<rparr>"
  let ?c = "\<lparr>globalCompositeOperation = source_over, strokeStyle = ''#000000'', lineWidth = 3,
         fillStyle = ''#ffffff'', lineCap = ''round'', lineJoin = ''round'',
         path = [[(0, 0), (10, 10)]],
         bitmap = [Fill ''#ffffff'',
                   Stroke source_over ''#000000'' 3 [[(0::real, 0::real), (10, 10)]]],
         otherColor = colorKeywords\<rparr>"
  let ?b = "\<lparr>globalCompositeOperation = source_over, strokeStyle = ''#000000'', lineWidth = 1,
         fillStyle = ''#ffffff'', lineCap = ''round'', lineJoin = ''round'', path = [],
         bitmap = [Fill ''#ffffff''], otherColor = colorKeywords\<rparr>"
  have m: "getContext ?m = Some ?c" "isDrawing ?m" "isConnected ?m" "tool ?m \<noteq> pen"
    "size_s ?m = 5" "getCanvasCoordinates \<lparr>clientX = 20, clientY = 5\<rparr> ?m = (20, 5)"
    by (simp_all add: midGesture_eq getContext_def getCanvasCoordinates_def)
  have p: "getContext ?p = Some ?c" "isDrawing ?p" "isConnected ?p" "tool ?p = pen"
    "size_s ?p = 3" "color ?p = ''#ff0000''" "validColor ?c ''#ff0000''"
    "getCanvasCoordinates \<lparr>clientX = 20, clientY = 5\<rparr> ?p = (20, 5)"
    by (simp_all add: midGesture_eq getContext_def getCanvasCoordinates_def validColor_def
          hexColor_def hexDigit_def)
  have b: "getContext replicaB = Some ?b"
    by (simp add: replicaB_eq getContext_def)
  have e: "points (strokeA\<lparr>type_d := erase_t\<rparr>) \<noteq> []" "type_d (strokeA\<lparr>type_d := erase_t\<rparr>) \<noteq> draw_t"
    "0 < size_d (strokeA\<lparr>type_d := erase_t\<rparr>)"
    "points strokeA \<noteq> []" "type_d strokeA = draw_t" "0 < size_d strokeA"
    "validColor ?b (color_d strokeA)"
    by (simp_all add: strokeA_def validColor_def hexColor_def hexDigit_def)
  from eraser_doubles_width_ignores_color [OF m(1), of "\<lparr>clientX = 20, clientY = 5\<rparr>" "''#ff0000''"] m
  have 1: "surface (draw \<lparr>clientX = 20, clientY = 5\<rparr> ?m) =
     Some [Fill ''#ffffff'', Stroke source_over ''#000000'' 3 [[(0, 0), (10, 10)]],
           Stroke destination_out ''#000000'' 10 [[(0, 0), (10, 10), (20, 5)]]]"
    and 2: "surface (draw \<lparr>clientX = 20, clientY = 5\<rparr> (?m\<lparr>color := ''#ff0000''\<rparr>)) =
     surface (draw \<lparr>clientX = 20, clientY = 5\<rparr> ?m)"
    by (simp_all add: lineTo_def)
  from eraser_doubles_width_ignores_color [OF p(1), of "\<lparr>clientX = 20, clientY = 5\<rparr>"] p
  have 6: "surface (draw \<lparr>clientX = 20, clientY = 5\<rparr> ?p) =
     Some [Fill ''#ffffff'', Stroke source_over ''#000000'' 3 [[(0, 0), (10, 10)]],
           Stroke source_over ''#ff0000'' 3 [[(0, 0), (10, 10), (20, 5)]]]"
    by (simp add: lineTo_def)
  from eraser_doubles_width_ignores_color [OF b, where d = "strokeA\<lparr>type_d := erase_t\<rparr>" and k = "''#00ff00''"] e
  have 3: "surface (drawRemoteStroke (strokeA\<lparr>type_d := erase_t\<rparr>) replicaB) =
     Some [Fill ''#ffffff'', Stroke destination_out ''#000000'' 6 [[(0, 0), (0, 0), (10, 10)]]]"
    and 4: "drawRemoteStroke (strokeA\<lparr>type_d := erase_t, color_d := ''#00ff00''\<rparr>) replicaB =
     drawRemoteStroke (strokeA\<lparr>type_d := erase_t\<rparr>) replicaB"
    by (simp_all add: strokeA_def)
  from eraser_doubles_width_ignores_color [OF b, where d = strokeA] e
  have 5: "surface (drawRemoteStroke strokeA replicaB) =
     Some [Fill ''#ffffff'', Stroke source_over ''#ff0000'' 3 [[(0, 0), (0, 0), (10, 10)]]]"
    by (simp add: strokeA_def)
  from 1 2 3 4 5 6 show ?thesis by simp
qed

subsection \<open>C7: draw messages with no points\<close>

text \<open>
  C7. A draw message whose point list is empty leaves the replica exactly as it was,
  whoever sent it: the handler returns the state it was called with, surface included.
\<close>

theorem empty_draw_message_dropped:
  "m_type m = ''draw'' \<Longrightarrow> points (m_data m) = [] \<Longrightarrow> onMessage m s = s"
  by (simp add: onMessage_def drawRemoteStroke_def split: option.split)

text \<open>A run of C7's theorem: the message of \<open>A\<close> with its points removed.\<close>

theorem empty_draw_message_witness:
  "m_type (messageA\<lparr>m_data := strokeA\<lparr>points := []\<rparr>\<rparr>) = ''draw'' \<and>
   points (m_data (messageA\<lparr>m_data := strokeA\<lparr>points := []\<rparr>\<rparr>)) = [] \<and>
   onMessage (messageA\<lparr>m_data := strokeA\<lparr>points := []\<rparr>\<rparr>) replicaB = replicaB"
proof -
  have a: "m_type (messageA\<lparr>m_data := strokeA\<lparr>points := []\<rparr>\<rparr>) = ''draw''"
    and b: "points (m_data (messageA\<lparr>m_data := strokeA\<lparr>points := []\<rparr>\<rparr>)) = []"
    by (simp_all add: messageA_def)
  from empty_draw_message_dropped [OF a b] a b show ?thesis by simp
qed

subsection \<open>C8: gestures while not connected\<close>

text \<open>
  C8. The component tells the connected state from the other two by \<open>isConnected\<close>
  alone. While the handlers see it false, \<open>startDrawing\<close>, \<open>draw\<close> and \<open>stopDrawing\<close>
  return the state they were called with: history, surface and the stroke in progress
  are unchanged and nothing is published or kept for later.
\<close>

theorem gestures_ignored_unless_connected:
  "\<not> isConnected s \<Longrightarrow>
     startDrawing e s = s \<and> draw e' s = s \<and> stopDrawing now_id now_ts ok s = (s, None)"
  by (simp add: startDrawing_def draw_def stopDrawing_def stopDrawing_begin_def)

text \<open>A run of C8's theorem: participant \<open>B\<close> before its subscription has settled.\<close>

theorem gestures_ignored_witness:
  "\<not> isConnected replicaB0 \<and>
   startDrawing \<lparr>clientX = 0, clientY = 0\<rparr> replicaB0 = replicaB0 \<and>
   draw \<lparr>clientX = 10, clientY = 10\<rparr> replicaB0 = replicaB0 \<and>
   stopDrawing 1700 1700 True replicaB0 = (replicaB0, None)"
proof -
  have a: "\<not> isConnected replicaB0" by (simp add: replicaB0_def mounted_def)
  from gestures_ignored_unless_connected [OF a] a show ?thesis by simp
qed

subsection \<open>C9: the online count\<close>

text \<open>
  C9. After any run of events from any state, the presence list is the snapshot
  delivered last (the list the run started with when none was delivered), and the
  count shown is its length.
\<close>

theorem online_count_is_latest_snapshot:
  "onlineUsers (run evs s) = latestSnapshot (onlineUsers s) evs \<and>
   onlineCount (run evs s) = length (latestSnapshot (onlineUsers s) evs)"
proof -
  have "onlineUsers (foldl (\<lambda>s' e. handle e s') s evs) = latestSnapshot (onlineUsers s) evs"
  proof (induction evs arbitrary: s)
    case Nil
    show ?case by simp
  next
    case (Cons ev evs)
    show ?case by (cases ev) (simp_all add: Cons.IH handle_onlineUsers del: handle.simps)
  qed
  then show ?thesis by (simp add: run_def onlineCount_def)
qed

text \<open>A run of C9's theorem: two snapshots with other events between them.\<close>

theorem online_count_witness:
  "onlineCount
     (run [SubscribeResolved,
           Presence [\<lparr>userId = ''A'', metadata = None\<rparr>, \<lparr>userId = ''B'', metadata = None\<rparr>],
           PointerDown \<lparr>clientX = 0, clientY = 0\<rparr>,
           Presence [\<lparr>userId = ''B'', metadata = None\<rparr>]] replicaB0) = 1"
  using online_count_is_latest_snapshot
    [of "[SubscribeResolved,
           Presence [\<lparr>userId = ''A'', metadata = None\<rparr>, \<lparr>userId = ''B'', metadata = None\<rparr>],
           PointerDown \<lparr>clientX = 0, clientY = 0\<rparr>,
           Presence [\<lparr>userId = ''B'', metadata = None\<rparr>]]" replicaB0]
  by simp

subsection \<open>C10: undo on an empty history\<close>

text \<open>
  C10. On an empty history \<open>handleUndo\<close> returns the state it was called with: the
  history is still empty and the surface is unchanged.
\<close>

theorem undo_on_empty_history:
  "drawingHistory s = [] \<Longrightarrow>
     handleUndo s = s \<and> drawingHistory (handleUndo s) = [] \<and> surface (handleUndo s) = surface s"
  by (simp add: handleUndo_def)

text \<open>A run of C10's theorem: participant \<open>B\<close>, connected, nothing drawn yet.\<close>

theorem undo_on_empty_witness:
  "drawingHistory replicaB = [] \<and> handleUndo replicaB = replicaB \<and>
   surface (handleUndo replicaB) = Some blank"
proof -
  have a: "drawingHistory replicaB = []" by (simp add: replicaB_eq)
  from undo_on_empty_history [OF a] a show ?thesis
    by (simp add: replicaB_eq surface_def getContext_def blank_def)
qed

end
